theory Spec2Isabelle
  imports Main "HOL-Library.Char_ord" "HOL-Library.List_Lexorder" "HOL-Library.Sublist"
    "HOL-Library.AList"
begin

section \<open>Errors and log records\<close>

text \<open>
  The exceptions that can leave the functions of \<^verbatim>\<open>gammacat/output.py\<close>:
  \<^verbatim>\<open>ValueError\<close> (raised by \<^verbatim>\<open>make_filename\<close>, by \<^verbatim>\<open>Path.relative_to\<close> and by
  \<^verbatim>\<open>Path.rglob\<close> on an empty pattern), \<^verbatim>\<open>KeyError\<close> and \<^verbatim>\<open>TypeError\<close> (subscripting the
  index document), \<^verbatim>\<open>OSError\<close> (a write or \<^verbatim>\<open>mkdir\<close> refused by the file system) and the
  read error of the input layer.
\<close>

datatype error =
    ValueError string
  | KeyError string
  | TypeError
  | OSError
  | ReadError

text \<open>
  A record of the module logger. \<^verbatim>\<open>log.error('Missing: {}'.format(missing))\<close> is kept as
  the prefix and the list that is formatted after it.
\<close>

datatype level = DEBUG | INFO | ERROR

datatype 'a message = Text string | Listing string "'a list"

type_synonym 'a log_record = "level \<times> 'a message"

section \<open>\<^verbatim>\<open>log_list_difference\<close>\<close>

text \<open>
  \<^verbatim>\<open>set(xs) - set(ys)\<close>: the elements of \<open>xs\<close> that are not in \<open>ys\<close>, each once.
  Python leaves the iteration order of the set open; \<^verbatim>\<open>sorted\<close> fixes it.
\<close>

definition set_difference :: "'a list \<Rightarrow> 'a list \<Rightarrow> 'a list" where
  "set_difference xs ys = remdups (filter (\<lambda>x. x \<notin> set ys) xs)"

text \<open>
  \<^verbatim>\<open>
  def log_list_difference(actual, expected):
      missing = sorted(set(expected) - set(actual))
      if missing:
          log.error('Missing: {}'.format(missing))
      extra = sorted(set(actual) - set(expected))
      if extra:
          log.error('Extra: {}'.format(extra))
  \<close>
  The model returns the records that the call appends to the log.
\<close>

definition log_list_difference :: "'a::linorder list \<Rightarrow> 'a list \<Rightarrow> 'a log_record list" where
  "log_list_difference actual expected =
     (let missing = sort (set_difference expected actual);
          extra = sort (set_difference actual expected)
      in (if missing \<noteq> [] then [(ERROR, Listing ''Missing: '' missing)] else []) @
         (if extra \<noteq> [] then [(ERROR, Listing ''Extra: '' extra)] else []))"

section \<open>Paths\<close>

text \<open>
  A \<^verbatim>\<open>pathlib\<close> path of the POSIX flavour: the root (\<open>''''\<close> for a relative path,
  \<open>''/''\<close> or \<open>''//''\<close> otherwise) and the list of components.
\<close>

datatype ppath = PurePath (anchor: string) (parts: "string list")

text \<open>\<^verbatim>\<open>s.split('/')\<close>\<close>

fun split_sep :: "string \<Rightarrow> string list" where
  "split_sep [] = [[]]"
| "split_sep (c # cs) =
     (if c = CHR ''/'' then [] # split_sep cs
      else (case split_sep cs of [] \<Rightarrow> [[c]] | w # ws \<Rightarrow> (c # w) # ws))"

text \<open>The components of a string: empty components and \<open>''.''\<close> are dropped.\<close>

definition parse_parts :: "string \<Rightarrow> string list" where
  "parse_parts rel = filter (\<lambda>x. x \<noteq> [] \<and> x \<noteq> ''.'') (split_sep rel)"

text \<open>
  The root of a string and the rest: exactly two leading slashes are kept as \<open>''//''\<close>,
  any other number of them is the root \<open>''/''\<close>.
\<close>

definition splitroot :: "string \<Rightarrow> string \<times> string" where
  "splitroot part =
     (if part \<noteq> [] \<and> hd part = CHR ''/'' then
        (let stripped = dropWhile (\<lambda>c. c = CHR ''/'') part
         in if length part - length stripped = 2 then (''//'', stripped) else (''/'', stripped))
      else ([], part))"

text \<open>\<^verbatim>\<open>Path(s)\<close>\<close>

definition Path_of :: "string \<Rightarrow> ppath" where
  "Path_of s = (case splitroot s of (r, rel) \<Rightarrow> PurePath r (parse_parts rel))"

text \<open>
  \<^verbatim>\<open>p / s\<close>: a right operand with a root replaces the left operand, any other one
  appends its components.
\<close>

definition joinpath :: "ppath \<Rightarrow> string \<Rightarrow> ppath" where
  "joinpath p s =
     (let q = Path_of s
      in if anchor q \<noteq> [] then q else PurePath (anchor p) (parts p @ parts q))"

text \<open>\<^verbatim>\<open>'/'.join(xs)\<close>\<close>

fun join_sep :: "string list \<Rightarrow> string" where
  "join_sep [] = []"
| "join_sep [x] = x"
| "join_sep (x # y # ys) = x @ ''/'' @ join_sep (y # ys)"

text \<open>\<^verbatim>\<open>str(p)\<close>; the empty path prints as \<open>''.''\<close>.\<close>

definition str_of :: "ppath \<Rightarrow> string" where
  "str_of p =
     (if anchor p = [] \<and> parts p = [] then ''.'' else anchor p @ join_sep (parts p))"

text \<open>\<^verbatim>\<open>p.parent\<close>\<close>

definition parent :: "ppath \<Rightarrow> ppath" where
  "parent p = PurePath (anchor p) (butlast (parts p))"

text \<open>\<^verbatim>\<open>p.relative_to(other)\<close>, which raises \<^verbatim>\<open>ValueError\<close> unless \<open>other\<close> is a prefix.\<close>

definition relative_to :: "ppath \<Rightarrow> ppath \<Rightarrow> error + ppath" where
  "relative_to p other =
     (if anchor p = anchor other \<and> prefix (parts other) (parts p)
      then Inr (PurePath [] (drop (length (parts other)) (parts p)))
      else Inl (ValueError ''not in the subpath''))"

section \<open>Input entities and collaborators\<close>

text \<open>
  An SED entity of the input layer: the path it was read from, and its table with the
  attached metadata record. The metadata record \<open>'m\<close> and the table body \<open>'b\<close> are opaque.
\<close>

record ('m, 'b) table =
  meta :: 'm
  body :: 'b

record ('m, 'b) sed =
  sed_path :: string
  sed_table :: "('m, 'b) table"

text \<open>
  \<^verbatim>\<open>InputData\<close>: the SED collection (\<^verbatim>\<open>seds.data\<close>) and the record lists
  \<^verbatim>\<open>datasets.to_dict()['data']\<close> and \<^verbatim>\<open>sources.to_dict()['data']\<close>.
\<close>

record ('m, 'b, 'r) input_data =
  seds :: "('m, 'b) sed list"
  datasets_data :: "'r list"
  sources_data :: "'r list"

text \<open>
  The modules imported by \<^verbatim>\<open>output.py\<close> are parameters of the model:
  \<^item> \<^verbatim>\<open>gammacat_info\<close>: \<open>base_dir\<close> and \<open>info_dict\<close>;
  \<^item> \<^verbatim>\<open>gammacat_tag\<close>: \<open>source_dataset_filename\<close> and \<open>source_str\<close>, total on metadata
    records (a record holds the fields the tags are derived from);
  \<^item> \<^verbatim>\<open>InputData.read()\<close> and \<^verbatim>\<open>SEDList.read()\<close>, which may fail;
  \<^item> \<^verbatim>\<open>sed.process()\<close>, the in-place update of an SED;
  \<^item> \<open>ecsv\<close>, the text that the \<^verbatim>\<open>ascii.ecsv\<close> writer produces for a table;
  \<^item> \<open>fnmatch\<close>, the match of a file name against a pattern (name first);
  \<^item> \<open>cwd\<close>, the components of the working directory, against which a relative path
    is resolved.
\<close>

record ('m, 'b, 'i, 'r) env =
  base_dir :: ppath
  info_dict :: 'i
  source_dataset_filename :: "'m \<Rightarrow> string"
  source_str :: "'m \<Rightarrow> string"
  InputData_read :: "error + ('m, 'b, 'r) input_data"
  SEDList_read :: "error + ('m, 'b) sed list"
  process :: "('m, 'b) sed \<Rightarrow> ('m, 'b) sed"
  ecsv :: "('m, 'b) table \<Rightarrow> string"
  fnmatch :: "string \<Rightarrow> string \<Rightarrow> bool"
  cwd :: "string list"

section \<open>\<^verbatim>\<open>OutputDataConfig\<close>\<close>

text \<open>\<^verbatim>\<open>path = gammacat_info.base_dir / 'docs/data'\<close> and the fixed files below it.\<close>

definition path :: "('m, 'b, 'i, 'r) env \<Rightarrow> ppath" where
  "path env = joinpath (base_dir env) ''docs/data''"

definition gammacat_yaml :: "('m, 'b, 'i, 'r) env \<Rightarrow> ppath" where
  "gammacat_yaml env = joinpath (path env) ''gammacat.yaml''"

definition gammacat_ecsv :: "('m, 'b, 'i, 'r) env \<Rightarrow> ppath" where
  "gammacat_ecsv env = joinpath (path env) ''gammacat.ecsv''"

definition gammacat_fits :: "('m, 'b, 'i, 'r) env \<Rightarrow> ppath" where
  "gammacat_fits env = joinpath (path env) ''gammacat.fits.gz''"

definition index_datasets_json :: "('m, 'b, 'i, 'r) env \<Rightarrow> ppath" where
  "index_datasets_json env = joinpath (path env) ''gammacat-datasets.json''"

definition index_sources_json :: "('m, 'b, 'i, 'r) env \<Rightarrow> ppath" where
  "index_sources_json env = joinpath (path env) ''gammacat-sources.json''"

text \<open>
  \<^verbatim>\<open>
  def make_filename(meta, datatype, relative=False):
      tag = gammacat_tag.source_dataset_filename(meta)
      if relative:
          base_path = Path('')
      else:
          base_path = OutputDataConfig.path
      source_path = base_path / 'sources' / gammacat_tag.source_str(meta)
      if datatype == 'sed':
          path = source_path / '{}_sed.ecsv'.format(tag)
      elif datatype == 'lc':
          path = source_path / '{}_lc.ecsv'.format(tag)
      else:
          raise ValueError('Invalid datatype: {}'.format(datatype))
      return path
  \<close>
\<close>

definition base_path :: "('m, 'b, 'i, 'r) env \<Rightarrow> bool \<Rightarrow> ppath" where
  "base_path env relative = (if relative then Path_of [] else path env)"

definition source_path :: "('m, 'b, 'i, 'r) env \<Rightarrow> 'm \<Rightarrow> bool \<Rightarrow> ppath" where
  "source_path env m relative =
     joinpath (joinpath (base_path env relative) ''sources'') (source_str env m)"

definition make_filename ::
  "('m, 'b, 'i, 'r) env \<Rightarrow> 'm \<Rightarrow> string \<Rightarrow> bool \<Rightarrow> error + ppath" where
  "make_filename env m datatype relative =
     (let tag = source_dataset_filename env m;
          source_path = source_path env m relative
      in if datatype = ''sed'' then Inr (joinpath source_path (tag @ ''_sed.ecsv''))
         else if datatype = ''lc'' then Inr (joinpath source_path (tag @ ''_lc.ecsv''))
         else Inl (ValueError (''Invalid datatype: '' @ datatype)))"

text \<open>\<^verbatim>\<open>Path.is_absolute()\<close>, and a string that is one directory or file name.\<close>

definition is_absolute :: "ppath \<Rightarrow> bool" where
  "is_absolute p = (anchor p \<noteq> [])"

definition plain_name :: "string \<Rightarrow> bool" where
  "plain_name s = (s \<noteq> [] \<and> s \<noteq> ''.'' \<and> CHR ''/'' \<notin> set s)"

section \<open>The file system\<close>

text \<open>
  An index document is an \<^verbatim>\<open>OrderedDict\<close>: an association list in insertion order, where
  \<^verbatim>\<open>data[k] = v\<close> is \<^const>\<open>AList.update\<close> (a new key is appended, an old one keeps its
  place). Its values are the catalog metadata, a record list or a list of file names.
\<close>

datatype ('i, 'r) jvalue = Info 'i | Records "'r list" | Files "string list"

type_synonym ('i, 'r) odict = "(string \<times> ('i, 'r) jvalue) list"

text \<open>
  A file holds the text of a table or a JSON document. The store maps the components
  of an absolute path to a regular file or a directory, and lists the paths in the order
  in which a directory scan yields them. There are no symbolic links, and a component is
  a name (\<open>''..''\<close> is not interpreted).
\<close>

datatype ('i, 'r) content = Bytes string | Json "('i, 'r) odict"

datatype ('i, 'r) node = File "('i, 'r) content" | Dir

record ('i, 'r) filesys =
  entries :: "string list list"
  node :: "string list \<rightharpoonup> ('i, 'r) node"

definition bindE :: "'e + 'a \<Rightarrow> ('a \<Rightarrow> 'e + 'b) \<Rightarrow> 'e + 'b" where
  "bindE x f = (case x of Inl e \<Rightarrow> Inl e | Inr v \<Rightarrow> f v)"

text \<open>A relative path is resolved against the working directory.\<close>

definition resolve :: "('m, 'b, 'i, 'r) env \<Rightarrow> ppath \<Rightarrow> string list" where
  "resolve env p = (if anchor p = [] then cwd env @ parts p else parts p)"

text \<open>The root directory always exists.\<close>

definition node_at :: "('i, 'r) filesys \<Rightarrow> string list \<Rightarrow> ('i, 'r) node option" where
  "node_at fs p = (if p = [] then Some Dir else node fs p)"

definition is_dir :: "('i, 'r) filesys \<Rightarrow> string list \<Rightarrow> bool" where
  "is_dir fs p = (node_at fs p = Some Dir)"

definition is_file :: "('i, 'r) filesys \<Rightarrow> string list \<Rightarrow> bool" where
  "is_file fs p = (case node_at fs p of Some (File c) \<Rightarrow> True | _ \<Rightarrow> False)"

text \<open>
  \<^verbatim>\<open>d.mkdir(parents=True, exist_ok=True)\<close>: every missing directory on the way from the
  root to \<open>d\<close> is created, an existing directory is accepted, a regular file in the way
  raises. The second argument is the part of the path already walked.
\<close>

fun mkdir_parents ::
  "('i, 'r) filesys \<Rightarrow> string list \<Rightarrow> string list \<Rightarrow> error + ('i, 'r) filesys" where
  "mkdir_parents fs pre [] = Inr fs"
| "mkdir_parents fs pre (n # ns) =
     (case node fs (pre @ [n]) of
        None \<Rightarrow>
          mkdir_parents
            (fs\<lparr>entries := entries fs @ [pre @ [n]], node := (node fs)(pre @ [n] \<mapsto> Dir)\<rparr>)
            (pre @ [n]) ns
      | Some Dir \<Rightarrow> mkdir_parents fs (pre @ [n]) ns
      | Some (File c) \<Rightarrow> Inl OSError)"

text \<open>
  Opening a path for writing and writing \<open>c\<close>: the parent must be a directory and the
  path must not be one; an existing file is overwritten and keeps its place in the scan.
\<close>

definition write_file ::
  "('i, 'r) filesys \<Rightarrow> string list \<Rightarrow> ('i, 'r) content \<Rightarrow> error + ('i, 'r) filesys" where
  "write_file fs p c =
     (if p = [] then Inl OSError
      else if node_at fs (butlast p) \<noteq> Some Dir then Inl OSError
      else (case node fs p of
              None \<Rightarrow> Inr (fs\<lparr>entries := entries fs @ [p], node := (node fs)(p \<mapsto> File c)\<rparr>)
            | Some (File old) \<Rightarrow> Inr (fs\<lparr>node := (node fs)(p \<mapsto> File c)\<rparr>)
            | Some Dir \<Rightarrow> Inl OSError))"

text \<open>
  Modelled from the spec: \<^verbatim>\<open>write_json(object, path)\<close> of \<^verbatim>\<open>gammacat/utils.py\<close> is not
  among the sources. It writes the document to the path as JSON and preserves the key
  order.
\<close>

definition write_json ::
  "('i, 'r) filesys \<Rightarrow> ('i, 'r) odict \<Rightarrow> string list \<Rightarrow> error + ('i, 'r) filesys" where
  "write_json fs data p = write_file fs p (Json data)"

text \<open>
  \<open>scan_reaches fs root rel\<close>: \<open>rel\<close> leads from the directory \<open>root\<close> through directories only,
  so a recursive scan of \<open>root\<close> reaches \<open>root @ rel\<close>.
\<close>

definition scan_reaches :: "('i, 'r) filesys \<Rightarrow> string list \<Rightarrow> string list \<Rightarrow> bool" where
  "scan_reaches fs root rel =
     (rel \<noteq> [] \<and> list_all (\<lambda>k. is_dir fs (root @ take k rel)) [0..<length rel])"

text \<open>
  \<^verbatim>\<open>p.rglob(pattern)\<close> for a pattern of one component: every path below the directory
  \<open>p\<close> whose name matches, files and directories alike, as a child path of \<open>p\<close>. An empty
  pattern raises \<^verbatim>\<open>ValueError\<close>.
\<close>

definition rglob ::
  "('m, 'b, 'i, 'r) env \<Rightarrow> ('i, 'r) filesys \<Rightarrow> ppath \<Rightarrow> string \<Rightarrow> error + ppath list" where
  "rglob env fs p pattern =
     (if pattern = [] then Inl (ValueError ''Unacceptable pattern'')
      else Inr (map (\<lambda>q. PurePath (anchor p) (parts p @ drop (length (resolve env p)) q))
             (filter (\<lambda>q. prefix (resolve env p) q \<and> node fs q \<noteq> None
                  \<and> scan_reaches fs (resolve env p) (drop (length (resolve env p)) q)
                  \<and> fnmatch env (last q) pattern)
                (entries fs))))"

text \<open>A list comprehension whose element expression may raise.\<close>

fun collect :: "('a \<Rightarrow> error + 'b) \<Rightarrow> 'a list \<Rightarrow> error + 'b list" where
  "collect f [] = Inr []"
| "collect f (x # xs) =
     (case f x of
        Inl e \<Rightarrow> Inl e
      | Inr y \<Rightarrow> (case collect f xs of Inl e \<Rightarrow> Inl e | Inr ys \<Rightarrow> Inr (y # ys)))"

section \<open>\<^verbatim>\<open>OutputData\<close>\<close>

text \<open>
  The object built by \<^verbatim>\<open>OutputData.__init__\<close>: its path and the two index documents,
  \<^verbatim>\<open>None\<close> by default. The combined catalog table is not used by the functions below.
\<close>

record ('i, 'r) output_data =
  od_path :: ppath
  index_dataset :: "('i, 'r) odict option"
  index_sources :: "('i, 'r) odict option"

definition OutputData ::
  "('m, 'b, 'i, 'r) env \<Rightarrow> ('i, 'r) odict option \<Rightarrow> ('i, 'r) odict option \<Rightarrow> ('i, 'r) output_data"
  where
  "OutputData env idx srcs = \<lparr>od_path = path env, index_dataset = idx, index_sources = srcs\<rparr>"

text \<open>
  \<^verbatim>\<open>
  def list_of_files(self, pattern='*'):
      return list([
          str(_.relative_to(self.path))
          for _ in self.path.rglob(pattern)
          if _.is_file()
      ])
  \<close>
\<close>

definition list_of_files ::
  "('m, 'b, 'i, 'r) env \<Rightarrow> ('i, 'r) filesys \<Rightarrow> ('i, 'r) output_data \<Rightarrow> string
     \<Rightarrow> error + string list" where
  "list_of_files env fs self pattern =
     bindE (rglob env fs (od_path self) pattern) (\<lambda>found.
       collect (\<lambda>p. map_sum id str_of (relative_to p (od_path self)))
         (filter (\<lambda>p. is_file fs (resolve env p)) found))"

definition expected_files_extra :: "string list" where
  "expected_files_extra =
     [''README.md'', ''gammacat-datasets.json'', ''gammacat-sources.json'',
      ''gammacat.fits.gz'', ''gammacat.ecsv'', ''gammacat.yaml'']"

text \<open>
  \<^verbatim>\<open>
  def validate_list_of_files(self):
      actual = self.list_of_files()
      expected = self.index_dataset['files']
      log_list_difference(actual, expected)
      expected_files_sed = [
          str(OutputDataConfig.make_filename(sed.table.meta, 'sed', relative=True))
          for sed in SEDList.read().data
      ]
      expected_files_extra = [...]
      expected_files = expected_files_extra + expected_files_sed
      log_list_difference(actual, expected_files)
  \<close>
  The result is the list of records logged. Subscripting \<^verbatim>\<open>None\<close> raises \<^verbatim>\<open>TypeError\<close>,
  a missing key raises \<^verbatim>\<open>KeyError\<close>; an entry \<^verbatim>\<open>'files'\<close> that is not a list of names is
  reported as \<^verbatim>\<open>TypeError\<close>.
\<close>

definition validate_list_of_files ::
  "('m, 'b, 'i, 'r) env \<Rightarrow> ('i, 'r) filesys \<Rightarrow> ('i, 'r) output_data
     \<Rightarrow> error + string log_record list" where
  "validate_list_of_files env fs self =
     bindE (list_of_files env fs self ''*'') (\<lambda>actual.
     bindE (case index_dataset self of
              None \<Rightarrow> Inl TypeError
            | Some d \<Rightarrow> (case map_of d ''files'' of
                           None \<Rightarrow> Inl (KeyError ''files'')
                         | Some (Files names) \<Rightarrow> Inr names
                         | Some other \<Rightarrow> Inl TypeError)) (\<lambda>expected.
     let log1 = log_list_difference actual expected in
     bindE (SEDList_read env) (\<lambda>sed_list.
     bindE (collect (\<lambda>sed. map_sum id str_of
                       (make_filename env (meta (sed_table sed)) ''sed'' True)) sed_list)
       (\<lambda>expected_files_sed.
     let expected_files = expected_files_extra @ expected_files_sed
     in Inr (log1 @ log_list_difference actual expected_files)))))"

definition validate ::
  "('m, 'b, 'i, 'r) env \<Rightarrow> ('i, 'r) filesys \<Rightarrow> ('i, 'r) output_data
     \<Rightarrow> error + string log_record list" where
  "validate env fs self =
     bindE (validate_list_of_files env fs self) (\<lambda>records.
       Inr ((INFO, Text ''Validating output data ...'') # records))"

section \<open>\<^verbatim>\<open>OutputDataMaker\<close>\<close>

text \<open>
  The state a maker works on: the file system, the log, and the cache of the lazy
  property \<^verbatim>\<open>input_data\<close> (empty until the first use).
\<close>

record ('m, 'b, 'i, 'r) world =
  filesystem :: "('i, 'r) filesys"
  logged :: "string log_record list"
  input_cache :: "('m, 'b, 'r) input_data option"

text \<open>
  \<^verbatim>\<open>
  @lazyproperty
  def input_data(self):
      log.info('Reading input data ...')
      return InputData.read()
  \<close>
\<close>

definition input_data ::
  "('m, 'b, 'i, 'r) env \<Rightarrow> ('m, 'b, 'i, 'r) world
     \<Rightarrow> error + ('m, 'b, 'r) input_data \<times> ('m, 'b, 'i, 'r) world" where
  "input_data env w =
     (case input_cache w of
        Some d \<Rightarrow> Inr (d, w)
      | None \<Rightarrow>
          bindE (InputData_read env) (\<lambda>d.
            Inr (d, w\<lparr>logged := logged w @ [(INFO, Text ''Reading input data ...'')],
                       input_cache := Some d\<rparr>)))"

text \<open>
  The body of the loop of \<^verbatim>\<open>make_sed_files\<close>, on one SED:
  \<^verbatim>\<open>
      log.debug('Processing SED: {}'.format(sed.path))
      sed.process()
      path = OutputDataConfig.make_filename(meta=sed.table.meta, datatype='sed')
      path.parent.mkdir(parents=True, exist_ok=True)
      log.info('Writing {}'.format(path))
      sed.table.write(str(path), format='ascii.ecsv')
  \<close>
  It returns the processed SED with the new file system and log. The table writer
  overwrites an existing file.
\<close>

definition write_sed ::
  "('m, 'b, 'i, 'r) env \<Rightarrow> ('m, 'b) sed \<Rightarrow> ('i, 'r) filesys \<times> string log_record list
     \<Rightarrow> error + ('m, 'b) sed \<times> ('i, 'r) filesys \<times> string log_record list" where
  "write_sed env sed st =
     (case st of (f, lg) \<Rightarrow>
        let lg1 = lg @ [(DEBUG, Text (''Processing SED: '' @ sed_path sed))];
            sed1 = process env sed
        in bindE (make_filename env (meta (sed_table sed1)) ''sed'' False) (\<lambda>path.
           bindE (mkdir_parents f [] (resolve env (parent path))) (\<lambda>f1.
           let lg2 = lg1 @ [(INFO, Text (''Writing '' @ str_of path))]
           in bindE (write_file f1 (resolve env path) (Bytes (ecsv env (sed_table sed1))))
                (\<lambda>f2. Inr (sed1, f2, lg2)))))"

fun sed_loop ::
  "('m, 'b, 'i, 'r) env \<Rightarrow> ('m, 'b) sed list \<Rightarrow> ('i, 'r) filesys \<times> string log_record list
     \<Rightarrow> error + ('m, 'b) sed list \<times> ('i, 'r) filesys \<times> string log_record list" where
  "sed_loop env [] st = Inr ([], st)"
| "sed_loop env (sed # rest) st =
     (case write_sed env sed st of
        Inl e \<Rightarrow> Inl e
      | Inr (sed1, st1) \<Rightarrow>
          (case sed_loop env rest st1 of
             Inl e \<Rightarrow> Inl e
           | Inr (rest1, st2) \<Rightarrow> Inr (sed1 # rest1, st2)))"

text \<open>
  \<^verbatim>\<open>
  def make_sed_files(self):
      for sed in self.input_data.seds.data:
          ...
  \<close>
  The SEDs are processed in place, so the cached input data holds the processed ones
  afterwards.
\<close>

definition make_sed_files ::
  "('m, 'b, 'i, 'r) env \<Rightarrow> ('m, 'b, 'i, 'r) world \<Rightarrow> error + ('m, 'b, 'i, 'r) world" where
  "make_sed_files env w =
     bindE (input_data env w) (\<lambda>(d, w1).
     bindE (sed_loop env (seds d) (filesystem w1, logged w1)) (\<lambda>(processed, f, lg).
       Inr (w1\<lparr>filesystem := f, logged := lg, input_cache := Some (d\<lparr>seds := processed\<rparr>)\<rparr>)))"

text \<open>
  \<^verbatim>\<open>
  def make_index_files_datasets(self):
      data = OrderedDict()
      data['info'] = gammacat_info.info_dict
      data['data'] = self.input_data.datasets.to_dict()['data']
      data['files'] = OutputData().list_of_files()
      path = OutputDataConfig.index_datasets_json
      write_json(data, path)
  \<close>
\<close>

definition make_index_files_datasets ::
  "('m, 'b, 'i, 'r) env \<Rightarrow> ('m, 'b, 'i, 'r) world \<Rightarrow> error + ('m, 'b, 'i, 'r) world" where
  "make_index_files_datasets env w =
     (let data0 = AList.update ''info'' (Info (info_dict env)) []
      in bindE (input_data env w) (\<lambda>(d, w1).
         let data1 = AList.update ''data'' (Records (datasets_data d)) data0
         in bindE (list_of_files env (filesystem w1) (OutputData env None None) ''*'') (\<lambda>files.
            let data2 = AList.update ''files'' (Files files) data1
            in bindE (write_json (filesystem w1) data2 (resolve env (index_datasets_json env)))
                 (\<lambda>f. Inr (w1\<lparr>filesystem := f\<rparr>)))))"

text \<open>
  \<^verbatim>\<open>
  def make_index_files_sources(self):
      data = OrderedDict()
      data['info'] = gammacat_info.info_dict
      data['data'] = self.input_data.sources.to_dict()['data']
      path = OutputDataConfig.index_sources_json
      write_json(data, path)
  \<close>
\<close>

definition make_index_files_sources ::
  "('m, 'b, 'i, 'r) env \<Rightarrow> ('m, 'b, 'i, 'r) world \<Rightarrow> error + ('m, 'b, 'i, 'r) world" where
  "make_index_files_sources env w =
     (let data0 = AList.update ''info'' (Info (info_dict env)) []
      in bindE (input_data env w) (\<lambda>(d, w1).
         let data1 = AList.update ''data'' (Records (sources_data d)) data0
         in bindE (write_json (filesystem w1) data1 (resolve env (index_sources_json env)))
              (\<lambda>f. Inr (w1\<lparr>filesystem := f\<rparr>))))"

definition make_index_files ::
  "('m, 'b, 'i, 'r) env \<Rightarrow> ('m, 'b, 'i, 'r) world \<Rightarrow> error + ('m, 'b, 'i, 'r) world" where
  "make_index_files env w =
     bindE (make_index_files_datasets env w) (make_index_files_sources env)"

definition make_all ::
  "('m, 'b, 'i, 'r) env \<Rightarrow> ('m, 'b, 'i, 'r) world \<Rightarrow> error + ('m, 'b, 'i, 'r) world" where
  "make_all env w = bindE (make_sed_files env w) (make_index_files env)"

section \<open>Notions used in the proofs\<close>

text \<open>
  The entries that \<^verbatim>\<open>list_of_files\<close> keeps from a scan of the directory \<open>r\<close>: what
  \<^const>\<open>rglob\<close> selects, filtered by \<^const>\<open>is_file\<close>.
\<close>

definition scanned ::
  "('m, 'b, 'i, 'r) env \<Rightarrow> ('i, 'r) filesys \<Rightarrow> string list \<Rightarrow> string \<Rightarrow> string list \<Rightarrow> bool" where
  "scanned env fs r pattern q =
     ((prefix r q \<and> node fs q \<noteq> None \<and> scan_reaches fs r (drop (length r) q)
        \<and> fnmatch env (last q) pattern) \<and> is_file fs q)"

text \<open>
  The effect of one round of the loop of \<^verbatim>\<open>make_sed_files\<close> on the file system: make
  the directory \<open>d\<close>, then write \<open>c\<close> to the path \<open>p\<close>; and the effect of a list of rounds.
\<close>

definition put ::
  "('i, 'r) filesys \<Rightarrow> string list \<times> string list \<times> ('i, 'r) content \<Rightarrow> error + ('i, 'r) filesys" where
  "put fs x = (case x of (d, p, c) \<Rightarrow> bindE (mkdir_parents fs [] d) (\<lambda>f1. write_file f1 p c))"

fun puts ::
  "(string list \<times> string list \<times> ('i, 'r) content) list \<Rightarrow> ('i, 'r) filesys \<Rightarrow> error + ('i, 'r) filesys" where
  "puts [] fs = Inr fs"
| "puts (x # xs) fs = (case put fs x of Inl e \<Rightarrow> Inl e | Inr f1 \<Rightarrow> puts xs f1)"

text \<open>
  \<open>ready fs d p\<close>: the directory \<open>d\<close> and the file \<open>p\<close> are there already, so that a
  round on them only replaces the content of \<open>p\<close>.
\<close>

definition ready :: "('i, 'r) filesys \<Rightarrow> string list \<Rightarrow> string list \<Rightarrow> bool" where
  "ready fs d p =
     ((\<forall>q. prefix q d \<and> q \<noteq> [] \<longrightarrow> node fs q = Some Dir)
      \<and> p \<noteq> [] \<and> node_at fs (butlast p) = Some Dir \<and> (\<exists>c. node fs p = Some (File c)))"

text \<open>The content that a list of rounds leaves at each path: the last one written.\<close>

definition last_written ::
  "(string list \<times> string list \<times> ('i, 'r) content) list \<Rightarrow> string list \<rightharpoonup> ('i, 'r) node" where
  "last_written xs = map_of (rev (map (\<lambda>(d, p, c). (p, File c)) xs))"

text \<open>The file of an SED, and the round that \<^verbatim>\<open>make_sed_files\<close> performs for it.\<close>

definition sed_file :: "('m, 'b, 'i, 'r) env \<Rightarrow> ('m, 'b) sed \<Rightarrow> ppath" where
  "sed_file env s =
     joinpath (source_path env (meta (sed_table s)) False)
       (source_dataset_filename env (meta (sed_table s)) @ ''_sed.ecsv'')"

definition sed_target ::
  "('m, 'b, 'i, 'r) env \<Rightarrow> ('m, 'b) sed \<Rightarrow> string list \<times> string list \<times> ('i, 'r) content" where
  "sed_target env s =
     (resolve env (parent (sed_file env s)), resolve env (sed_file env s),
      Bytes (ecsv env (sed_table s)))"

section \<open>An instance\<close>

text \<open>
  A small catalog on which the definitions can be run: a metadata record is the pair of
  its source directory name and its tag, a table body is its text, and one SED is read
  from the input.
\<close>

definition example_sed :: "(string \<times> string, string) sed" where
  "example_sed =
     \<lparr>sed_path = ''input/tev-000001.yaml'',
      sed_table = \<lparr>meta = (''tev-000001'', ''tev-000001-2011''), body = ''e_ref''\<rparr>\<rparr>"

definition example_env :: "(string \<times> string, string, unit, nat) env" where
  "example_env =
     \<lparr>base_dir = PurePath ''/'' [''repo''],
      info_dict = (),
      source_dataset_filename = snd,
      source_str = fst,
      InputData_read = Inr \<lparr>seds = [example_sed], datasets_data = [1], sources_data = [2]\<rparr>,
      SEDList_read = Inr [example_sed],
      process = (\<lambda>s. s\<lparr>sed_table := (sed_table s)\<lparr>body := body (sed_table s) @ '' dnde''\<rparr>\<rparr>),
      ecsv = (\<lambda>t. ''# %ECSV '' @ body t),
      fnmatch = (\<lambda>name pattern. pattern = ''*'' \<or> name = pattern),
      cwd = [''home'']\<rparr>"

text \<open>
  An output tree that holds the \<open>README.md\<close> only, and a maker that has not read its
  input yet.
\<close>

definition example_fs :: "(unit, nat) filesys" where
  "example_fs =
     \<lparr>entries = [[''repo''], [''repo'', ''docs''], [''repo'', ''docs'', ''data''],
                 [''repo'', ''docs'', ''data'', ''README.md'']],
      node = map_of
        [([''repo''], Dir), ([''repo'', ''docs''], Dir), ([''repo'', ''docs'', ''data''], Dir),
         ([''repo'', ''docs'', ''data'', ''README.md''], File (Bytes ''gamma-cat''))]\<rparr>"

definition example_world :: "(string \<times> string, string, unit, nat) world" where
  "example_world = \<lparr>filesystem = example_fs, logged = [], input_cache = None\<rparr>"

section \<open>Properties of \<^verbatim>\<open>log_list_difference\<close>\<close>

lemma set_set_difference: "set (set_difference xs ys) = set xs - set ys"
  by (auto simp: set_difference_def)

lemma distinct_set_difference: "distinct (set_difference xs ys)"
  by (simp add: set_difference_def)

lemma sort_set_difference_cong:
  fixes xs :: "'a::linorder list"
  assumes "set xs = set xs'" and "set ys = set ys'"
  shows "sort (set_difference xs ys) = sort (set_difference xs' ys')"
proof (rule sorted_distinct_set_unique)
  show "set (sort (set_difference xs ys)) = set (sort (set_difference xs' ys'))"
    using assms by (simp add: set_set_difference)
qed (simp_all add: distinct_set_difference)

text \<open>
  C3: \<^verbatim>\<open>log_list_difference(actual, expected)\<close> logs at most one \<^verbatim>\<open>Missing\<close> error, with the
  sorted list (without repetition) of the elements of \<open>expected\<close> that are not in
  \<open>actual\<close>, and only when that list is not empty; then at most one \<^verbatim>\<open>Extra\<close> error, with
  the sorted list of the elements of \<open>actual\<close> that are not in \<open>expected\<close>, and only when
  that list is not empty. Equal lists log nothing, and \<open>[a, b]\<close> against \<open>[b, c]\<close> logs
  \<open>Missing: [c]\<close> and \<open>Extra: [a]\<close>.
\<close>

theorem log_list_difference_report:
  "(\<exists>missing extra :: 'a::linorder list.
       sorted missing \<and> distinct missing \<and> set missing = set expected - set actual
     \<and> sorted extra \<and> distinct extra \<and> set extra = set actual - set expected
     \<and> log_list_difference actual expected =
         (if missing = [] then [] else [(ERROR, Listing ''Missing: '' missing)]) @
         (if extra = [] then [] else [(ERROR, Listing ''Extra: '' extra)]))
   \<and> log_list_difference actual actual = []
   \<and> log_list_difference [''a'', ''b''] [''b'', ''c''] =
       [(ERROR, Listing ''Missing: '' [''c'']), (ERROR, Listing ''Extra: '' [''a''])]"
proof (intro conjI)
  show "\<exists>missing extra :: 'a list.
       sorted missing \<and> distinct missing \<and> set missing = set expected - set actual
     \<and> sorted extra \<and> distinct extra \<and> set extra = set actual - set expected
     \<and> log_list_difference actual expected =
         (if missing = [] then [] else [(ERROR, Listing ''Missing: '' missing)]) @
         (if extra = [] then [] else [(ERROR, Listing ''Extra: '' extra)])"
    by (rule exI [of _ "sort (set_difference expected actual)"],
        rule exI [of _ "sort (set_difference actual expected)"])
       (simp add: log_list_difference_def Let_def set_set_difference distinct_set_difference)
  show "log_list_difference actual actual = []"
    by (simp add: log_list_difference_def set_difference_def)
  show "log_list_difference [''a'', ''b''] [''b'', ''c''] =
       [(ERROR, Listing ''Missing: '' [''c'']), (ERROR, Listing ''Extra: '' [''a''])]"
    by (simp add: log_list_difference_def set_difference_def)
qed

text \<open>
  C10: \<^verbatim>\<open>log_list_difference\<close> compares its arguments as sets: two actual lists with
  the same elements and two expected lists with the same elements (in any order, with
  any repetition) give the same log.
\<close>

theorem log_list_difference_set_semantics:
  fixes actual :: "'a::linorder list"
  assumes "set actual = set actual'" and "set expected = set expected'"
  shows "log_list_difference actual expected = log_list_difference actual' expected'"
  unfolding log_list_difference_def
  using sort_set_difference_cong [OF assms(1) assms(2)] sort_set_difference_cong [OF assms(2) assms(1)]
  by simp

theorem log_list_difference_set_semantics_witness:
  "set [''b'', ''a'', ''a''] = set [''a'', ''b''] \<and> set [''c'', ''b'', ''c''] = set [''b'', ''c'']
   \<and> log_list_difference [''b'', ''a'', ''a''] [''c'', ''b'', ''c''] =
       [(ERROR, Listing ''Missing: '' [''c'']), (ERROR, Listing ''Extra: '' [''a''])]"
proof -
  have 1: "set [''b'', ''a'', ''a''] = set [''a'', ''b'']" by auto
  have 2: "set [''c'', ''b'', ''c''] = set [''b'', ''c'']" by auto
  have 3: "log_list_difference [''a'', ''b''] [''b'', ''c''] =
       [(ERROR, Listing ''Missing: '' [''c'']), (ERROR, Listing ''Extra: '' [''a''])]"
    by (simp add: log_list_difference_def set_difference_def)
  show ?thesis
    using log_list_difference_set_semantics [OF 1 2] 1 2 3 by simp
qed

section \<open>Properties of paths and of \<^verbatim>\<open>make_filename\<close>\<close>

lemma Path_of_docs_data: "Path_of ''docs/data'' = PurePath [] [''docs'', ''data'']"
  by (simp add: Path_of_def splitroot_def parse_parts_def)

lemma Path_of_sources: "Path_of ''sources'' = PurePath [] [''sources'']"
  by (simp add: Path_of_def splitroot_def parse_parts_def)

lemma Path_of_empty: "Path_of [] = PurePath [] []"
  by (simp add: Path_of_def splitroot_def parse_parts_def)

lemma path_parts: "parts (path env) = parts (base_dir env) @ [''docs'', ''data'']"
  and path_anchor: "anchor (path env) = anchor (base_dir env)"
  by (simp_all add: path_def joinpath_def Path_of_docs_data)

lemma anchor_Path_of: "anchor (Path_of s) = [] \<longleftrightarrow> (s = [] \<or> hd s \<noteq> CHR ''/'')"
  by (auto simp: Path_of_def splitroot_def Let_def split: prod.splits if_splits)

lemma parts_Path_of_rel: "anchor (Path_of s) = [] \<Longrightarrow> parts (Path_of s) = parse_parts s"
  by (auto simp: Path_of_def splitroot_def Let_def split: prod.splits if_splits)

lemma joinpath_rel:
  "anchor (Path_of s) = [] \<Longrightarrow> joinpath p s = PurePath (anchor p) (parts p @ parse_parts s)"
  by (simp add: joinpath_def Let_def parts_Path_of_rel)

lemma anchor_Path_of_append:
  "anchor (Path_of s) = [] \<Longrightarrow> t \<noteq> [] \<Longrightarrow> hd t \<noteq> CHR ''/'' \<Longrightarrow> anchor (Path_of (s @ t)) = []"
  by (cases s) (auto simp: anchor_Path_of)

lemma join_sep_append:
  "xs \<noteq> [] \<Longrightarrow> ys \<noteq> [] \<Longrightarrow> join_sep (xs @ ys) = join_sep xs @ ''/'' @ join_sep ys"
  by (induction xs rule: join_sep.induct) (auto simp: neq_Nil_conv)

lemma split_sep_no_slash: "CHR ''/'' \<notin> set s \<Longrightarrow> split_sep s = [s]"
  by (induction s) auto

lemma parse_parts_name:
  "CHR ''/'' \<notin> set s \<Longrightarrow> s \<noteq> [] \<Longrightarrow> s \<noteq> ''.'' \<Longrightarrow> parse_parts s = [s]"
  by (simp add: parse_parts_def split_sep_no_slash)

lemma parse_parts_sources: "parse_parts ''sources'' = [''sources'']"
  by (simp add: parse_parts_def)

lemma anchor_Path_of_sources: "anchor (Path_of ''sources'') = []"
  by (simp add: Path_of_sources)

lemma make_filename_parts:
  assumes "anchor (Path_of (source_str env m)) = []" and "anchor (Path_of (t @ sfx)) = []"
  shows "joinpath (source_path env m rel) (t @ sfx) =
     PurePath (anchor (base_path env rel))
       (parts (base_path env rel) @ ''sources'' # parse_parts (source_str env m) @ parse_parts (t @ sfx))"
  using assms by (simp add: source_path_def joinpath_rel anchor_Path_of_sources parse_parts_sources)

lemma str_of_under:
  assumes "bs \<noteq> []" and "rs \<noteq> []"
  shows "str_of (PurePath a (bs @ rs)) = str_of (PurePath a bs) @ ''/'' @ str_of (PurePath [] rs)"
  using assms by (simp add: str_of_def join_sep_append)

lemma parse_parts_file:
  assumes "CHR ''/'' \<notin> set t" and "sfx = ''_sed.ecsv'' \<or> sfx = ''_lc.ecsv''"
  shows "parse_parts (t @ sfx) = [t @ sfx]"
proof (rule parse_parts_name)
  show "CHR ''/'' \<notin> set (t @ sfx)" using assms by auto
  show "t @ sfx \<noteq> []" using assms by auto
  show "t @ sfx \<noteq> ''.''"
  proof
    assume "t @ sfx = ''.''"
    then have "length (t @ sfx) = 1" by simp
    moreover have "length sfx \<ge> 8" using assms(2) by auto
    ultimately show False by simp
  qed
qed

lemma anchor_Path_of_no_slash: "CHR ''/'' \<notin> set s \<Longrightarrow> anchor (Path_of s) = []"
  by (cases s) (auto simp: anchor_Path_of)

lemma make_filename_str:
  assumes "plain_name (source_str env m)" and "CHR ''/'' \<notin> set (source_dataset_filename env m)"
    and "sfx = ''_sed.ecsv'' \<or> sfx = ''_lc.ecsv''"
  shows "str_of (joinpath (source_path env m False) (source_dataset_filename env m @ sfx)) =
           str_of (path env) @ ''/sources/'' @ source_str env m @ ''/'' @ source_dataset_filename env m @ sfx"
    and "str_of (joinpath (source_path env m True) (source_dataset_filename env m @ sfx)) =
           ''sources/'' @ source_str env m @ ''/'' @ source_dataset_filename env m @ sfx"
proof -
  let ?s = "source_str env m" and ?t = "source_dataset_filename env m"
  have a1: "anchor (Path_of ?s) = []"
    using assms(1) by (simp add: plain_name_def anchor_Path_of_no_slash)
  have a2: "anchor (Path_of (?t @ sfx)) = []"
    using assms(2,3) by (intro anchor_Path_of_no_slash) auto
  have ps: "parse_parts ?s = [?s]"
    using assms(1) by (simp add: plain_name_def parse_parts_name)
  have pt: "parse_parts (?t @ sfx) = [?t @ sfx]"
    using assms(2,3) by (rule parse_parts_file)
  have ne: "parts (path env) \<noteq> []"
    by (simp add: path_parts)
  have p: "PurePath (anchor (path env)) (parts (path env)) = path env"
    by simp
  have "str_of (PurePath (anchor (path env)) (parts (path env) @ [''sources'', ?s, ?t @ sfx])) =
      str_of (path env) @ ''/'' @ str_of (PurePath [] [''sources'', ?s, ?t @ sfx])"
    using str_of_under [OF ne, of "[''sources'', ?s, ?t @ sfx]" "anchor (path env)"] by (simp only: p) simp
  then show "str_of (joinpath (source_path env m False) (?t @ sfx)) =
           str_of (path env) @ ''/sources/'' @ ?s @ ''/'' @ ?t @ sfx"
    by (simp add: make_filename_parts [OF a1 a2] ps pt base_path_def str_of_def)
  show "str_of (joinpath (source_path env m True) (?t @ sfx)) = ''sources/'' @ ?s @ ''/'' @ ?t @ sfx"
    by (simp add: make_filename_parts [OF a1 a2] ps pt base_path_def Path_of_empty str_of_def)
qed

text \<open>
  C4: \<^verbatim>\<open>make_filename(m, 'sed')\<close> is the source directory joined with \<open>tag_sed.ecsv\<close> and
  \<^verbatim>\<open>make_filename(m, 'lc')\<close> is the source directory joined with \<open>tag_lc.ecsv\<close>, where the
  source directory is \<open>sources\<close> joined with \<open>source_str m\<close>, below the output path
  unless the relative path is asked for, and the tag is \<open>source_dataset_filename m\<close>.
  When \<open>source_str m\<close> is one directory name and the tag holds no separator, the result
  prints as \<open>base/sources/source_str/tag_sed.ecsv\<close> (without \<open>base/\<close> when relative).
\<close>

theorem make_filename_sed_lc:
  "make_filename env m ''sed'' rel =
      Inr (joinpath (source_path env m rel) (source_dataset_filename env m @ ''_sed.ecsv''))
   \<and> make_filename env m ''lc'' rel =
      Inr (joinpath (source_path env m rel) (source_dataset_filename env m @ ''_lc.ecsv''))
   \<and> source_path env m rel =
      joinpath (joinpath (if rel then Path_of [] else path env) ''sources'') (source_str env m)
   \<and> (plain_name (source_str env m) \<and> CHR ''/'' \<notin> set (source_dataset_filename env m) \<longrightarrow>
        map_sum id str_of (make_filename env m ''sed'' False) =
          Inr (str_of (path env) @ ''/sources/'' @ source_str env m @ ''/'' @
               source_dataset_filename env m @ ''_sed.ecsv'')
      \<and> map_sum id str_of (make_filename env m ''lc'' False) =
          Inr (str_of (path env) @ ''/sources/'' @ source_str env m @ ''/'' @
               source_dataset_filename env m @ ''_lc.ecsv'')
      \<and> map_sum id str_of (make_filename env m ''sed'' True) =
          Inr (''sources/'' @ source_str env m @ ''/'' @ source_dataset_filename env m @ ''_sed.ecsv'')
      \<and> map_sum id str_of (make_filename env m ''lc'' True) =
          Inr (''sources/'' @ source_str env m @ ''/'' @ source_dataset_filename env m @ ''_lc.ecsv''))"
proof -
  have sed: "make_filename env m ''sed'' r =
      Inr (joinpath (source_path env m r) (source_dataset_filename env m @ ''_sed.ecsv''))" for r
    by (simp add: make_filename_def Let_def)
  have lc: "make_filename env m ''lc'' r =
      Inr (joinpath (source_path env m r) (source_dataset_filename env m @ ''_lc.ecsv''))" for r
    by (simp add: make_filename_def Let_def)
  have sp: "source_path env m rel =
      joinpath (joinpath (if rel then Path_of [] else path env) ''sources'') (source_str env m)"
    by (simp add: source_path_def base_path_def)
  show ?thesis
    using sp by (simp add: sed lc make_filename_str)
qed

theorem make_filename_sed_lc_witness:
  "plain_name (source_str example_env (''tev-000001'', ''tev-000001-2011''))
   \<and> CHR ''/'' \<notin> set (source_dataset_filename example_env (''tev-000001'', ''tev-000001-2011''))
   \<and> map_sum id str_of (make_filename example_env (''tev-000001'', ''tev-000001-2011'') ''sed'' False) =
        Inr ''/repo/docs/data/sources/tev-000001/tev-000001-2011_sed.ecsv''
   \<and> map_sum id str_of (make_filename example_env (''tev-000001'', ''tev-000001-2011'') ''lc'' True) =
        Inr ''sources/tev-000001/tev-000001-2011_lc.ecsv''"
proof -
  have h: "plain_name (source_str example_env (''tev-000001'', ''tev-000001-2011''))"
    "CHR ''/'' \<notin> set (source_dataset_filename example_env (''tev-000001'', ''tev-000001-2011''))"
    by (simp_all add: example_env_def plain_name_def)
  have p: "str_of (path example_env) = ''/repo/docs/data''"
    by (simp add: path_def example_env_def joinpath_def Path_of_docs_data str_of_def)
  have v: "source_str example_env (''tev-000001'', ''tev-000001-2011'') = ''tev-000001''"
    "source_dataset_filename example_env (''tev-000001'', ''tev-000001-2011'') = ''tev-000001-2011''"
    by (simp_all add: example_env_def)
  note t = make_filename_sed_lc [of example_env "(''tev-000001'', ''tev-000001-2011'')" False,
      THEN conjunct2, THEN conjunct2, THEN conjunct2, rule_format, OF conjI [OF h]]
  from t h show ?thesis
    by (simp add: p v)
qed

text \<open>
  C5: \<^verbatim>\<open>make_filename\<close> fails exactly when the datatype is neither \<open>sed\<close> nor \<open>lc\<close>, and then
  with \<^verbatim>\<open>ValueError('Invalid datatype: ...')\<close>; it is a function of its arguments, so the
  failure touches nothing else. For \<open>sed\<close> and \<open>lc\<close> it returns a path.
\<close>

theorem make_filename_error_iff:
  "(isl (make_filename env m datatype rel) \<longleftrightarrow> datatype \<noteq> ''sed'' \<and> datatype \<noteq> ''lc'')
   \<and> (datatype \<noteq> ''sed'' \<and> datatype \<noteq> ''lc'' \<longrightarrow>
        make_filename env m datatype rel = Inl (ValueError (''Invalid datatype: '' @ datatype)))
   \<and> (datatype = ''sed'' \<or> datatype = ''lc'' \<longrightarrow> (\<exists>p. make_filename env m datatype rel = Inr p))"
  by (auto simp: make_filename_def Let_def)

theorem make_filename_error_iff_witness:
  "make_filename example_env (''tev-000001'', ''tev-000001-2011'') ''xyz'' False =
     Inl (ValueError ''Invalid datatype: xyz'')
   \<and> isl (make_filename example_env (''tev-000001'', ''tev-000001-2011'') ''xyz'' False)
   \<and> \<not> isl (make_filename example_env (''tev-000001'', ''tev-000001-2011'') ''lc'' False)
   \<and> (\<exists>p. make_filename example_env (''tev-000001'', ''tev-000001-2011'') ''sed'' True = Inr p)"
  using make_filename_error_iff [of example_env "(''tev-000001'', ''tev-000001-2011'')" "''xyz''" False]
    make_filename_error_iff [of example_env "(''tev-000001'', ''tev-000001-2011'')" "''lc''" False]
    make_filename_error_iff [of example_env "(''tev-000001'', ''tev-000001-2011'')" "''sed''" True]
  by simp

text \<open>
  C6: for the datatypes \<open>sed\<close> and \<open>lc\<close>, when neither \<open>source_str m\<close> nor the tag is an
  absolute path, the relative file name is a proper suffix of the absolute one, and the
  absolute one is the output path, a separator and the relative one.
\<close>

theorem make_filename_relative_suffix:
  assumes "\<not> is_absolute (Path_of (source_str env m))"
      and "\<not> is_absolute (Path_of (source_dataset_filename env m))"
      and "datatype = ''sed'' \<or> datatype = ''lc''"
  shows "\<exists>pr pa. make_filename env m datatype True = Inr pr
           \<and> make_filename env m datatype False = Inr pa
           \<and> anchor pr = [] \<and> anchor pa = anchor (path env)
           \<and> parts pa = parts (path env) @ parts pr
           \<and> str_of pa = str_of (path env) @ ''/'' @ str_of pr
           \<and> suffix (str_of pr) (str_of pa) \<and> str_of pr \<noteq> str_of pa"
proof -
  let ?t = "source_dataset_filename env m"
  define sfx where "sfx = (if datatype = ''sed'' then ''_sed.ecsv'' else ''_lc.ecsv'')"
  define rs where "rs = ''sources'' # parse_parts (source_str env m) @ parse_parts (?t @ sfx)"
  have a1: "anchor (Path_of (source_str env m)) = []"
    using assms(1) by (simp add: is_absolute_def)
  have a2: "anchor (Path_of (?t @ sfx)) = []"
    using assms(2) by (simp add: is_absolute_def anchor_Path_of_append sfx_def)
  have mk: "make_filename env m datatype rel = Inr (joinpath (source_path env m rel) (?t @ sfx))" for rel
    using assms(3) by (auto simp: make_filename_def Let_def sfx_def)
  have pr: "make_filename env m datatype True = Inr (PurePath [] rs)"
    by (simp add: mk make_filename_parts [OF a1 a2] base_path_def Path_of_empty rs_def)
  have pa: "make_filename env m datatype False = Inr (PurePath (anchor (path env)) (parts (path env) @ rs))"
    by (simp add: mk make_filename_parts [OF a1 a2] base_path_def rs_def)
  have ne: "parts (path env) \<noteq> []" "rs \<noteq> []"
    by (simp_all add: path_parts rs_def)
  have p: "PurePath (anchor (path env)) (parts (path env)) = path env"
    by simp
  have s: "str_of (PurePath (anchor (path env)) (parts (path env) @ rs)) =
      str_of (path env) @ ''/'' @ str_of (PurePath [] rs)"
    using str_of_under [OF ne, of "anchor (path env)"] by (simp only: p)
  have sf: "suffix (str_of (PurePath [] rs)) (str_of (path env) @ ''/'' @ str_of (PurePath [] rs))"
    by (simp add: suffix_def)
  have neq: "str_of (PurePath [] rs) \<noteq> str_of (path env) @ ''/'' @ str_of (PurePath [] rs)"
    by simp
  show ?thesis
    unfolding pr pa using s sf neq by simp
qed

theorem make_filename_relative_suffix_witness:
  "\<not> is_absolute (Path_of (source_str example_env (''tev-000001'', ''tev-000001-2011'')))
   \<and> \<not> is_absolute (Path_of (source_dataset_filename example_env (''tev-000001'', ''tev-000001-2011'')))
   \<and> (\<exists>pr pa. make_filename example_env (''tev-000001'', ''tev-000001-2011'') ''sed'' True = Inr pr
        \<and> make_filename example_env (''tev-000001'', ''tev-000001-2011'') ''sed'' False = Inr pa
        \<and> str_of pa = ''/repo/docs/data'' @ ''/'' @ str_of pr
        \<and> suffix (str_of pr) (str_of pa) \<and> str_of pr \<noteq> str_of pa)"
proof -
  have h: "\<not> is_absolute (Path_of (source_str example_env (''tev-000001'', ''tev-000001-2011'')))"
    "\<not> is_absolute (Path_of (source_dataset_filename example_env (''tev-000001'', ''tev-000001-2011'')))"
    by (simp_all add: example_env_def is_absolute_def anchor_Path_of)
  have p: "str_of (path example_env) = ''/repo/docs/data''"
    by (simp add: path_def example_env_def joinpath_def Path_of_docs_data str_of_def)
  from make_filename_relative_suffix [OF h, of "''sed''"] p h show ?thesis
    by auto
qed

lemma make_filename_sed: "make_filename env m ''sed'' rel =
    Inr (joinpath (source_path env m rel) (source_dataset_filename env m @ ''_sed.ecsv''))"
  by (simp add: make_filename_def Let_def)

section \<open>Properties of \<^verbatim>\<open>list_of_files\<close>\<close>

lemma bindE_Inr: "bindE (Inr v) f = f v" and bindE_Inl: "bindE (Inl e) f = Inl e"
  by (simp_all add: bindE_def)

lemma bindE_eq_Inr: "bindE x f = Inr y \<longleftrightarrow> (\<exists>v. x = Inr v \<and> f v = Inr y)"
  by (cases x) (simp_all add: bindE_def)

lemma collect_all_Inr: "(\<And>x. x \<in> set xs \<Longrightarrow> f x = Inr (g x)) \<Longrightarrow> collect f xs = Inr (map g xs)"
  by (induction xs) simp_all

lemma collect_map_Inr:
  "(\<And>y. y \<in> set ys \<Longrightarrow> f (h y) = Inr (g y)) \<Longrightarrow> collect f (map h ys) = Inr (map g ys)"
  by (induction ys) simp_all

lemma resolve_child: "resolve env (PurePath (anchor p) (parts p @ rel)) = resolve env p @ rel"
  by (simp add: resolve_def)

lemma relative_to_child: "relative_to (PurePath (anchor p) (parts p @ rel)) p = Inr (PurePath [] rel)"
  by (simp add: relative_to_def)

lemma prefix_drop: "prefix r q \<Longrightarrow> r @ drop (length r) q = q"
  by (auto simp: prefix_def)

lemma list_of_files_closed:
  assumes "pattern \<noteq> []"
  shows "list_of_files env fs self pattern =
     Inr (map (\<lambda>q. str_of (PurePath [] (drop (length (resolve env (od_path self))) q)))
            (filter (scanned env fs (resolve env (od_path self)) pattern) (entries fs)))"
proof -
  let ?p = "od_path self"
  let ?r = "resolve env ?p"
  let ?child = "\<lambda>q. PurePath (anchor ?p) (parts ?p @ drop (length ?r) q)"
  let ?sel = "\<lambda>q. prefix ?r q \<and> node fs q \<noteq> None \<and> scan_reaches fs ?r (drop (length ?r) q)
                  \<and> fnmatch env (last q) pattern"
  have rg: "rglob env fs ?p pattern = Inr (map ?child (filter ?sel (entries fs)))"
    using assms by (simp add: rglob_def)
  have res: "resolve env (?child q) = q" if "prefix ?r q" for q
    using that by (simp add: resolve_child prefix_drop)
  have fl: "filter (\<lambda>p. is_file fs (resolve env p)) (map ?child (filter ?sel (entries fs))) =
      map ?child (filter (scanned env fs ?r pattern) (entries fs))"
    unfolding filter_map filter_filter scanned_def o_def
    by (intro arg_cong [where f = "map ?child"] filter_cong refl) (auto simp: res)
  have c: "collect (\<lambda>p. map_sum id str_of (relative_to p ?p))
          (map ?child (filter (scanned env fs ?r pattern) (entries fs))) =
        Inr (map (\<lambda>q. str_of (PurePath [] (drop (length ?r) q)))
              (filter (scanned env fs ?r pattern) (entries fs)))"
    by (rule collect_map_Inr) (simp add: relative_to_child)
  show ?thesis
    unfolding list_of_files_def rg bindE_Inr fl c ..
qed

lemma list_of_files_star: "\<exists>xs. list_of_files env fs self ''*'' = Inr xs"
  using list_of_files_closed [of "''*''" env fs self] by simp



section \<open>Writing a file twice\<close>

lemma mkdir_parents_keeps:
  "mkdir_parents fs pre ds = Inr fs' \<Longrightarrow> node fs q = Some x \<Longrightarrow> node fs' q = Some x"
proof (induction ds arbitrary: fs pre)
  case Nil
  then show ?case by simp
next
  case (Cons n ns)
  show ?case
  proof (cases "node fs (pre @ [n])")
    case None
    let ?f = "fs\<lparr>entries := entries fs @ [pre @ [n]], node := (node fs)(pre @ [n] \<mapsto> Dir)\<rparr>"
    from None Cons.prems have "mkdir_parents ?f (pre @ [n]) ns = Inr fs'" by simp
    moreover from None Cons.prems have "node ?f q = Some x" by auto
    ultimately show ?thesis by (rule Cons.IH)
  next
    case (Some y)
    with Cons.prems have "mkdir_parents fs (pre @ [n]) ns = Inr fs'"
      by (cases y) simp_all
    then show ?thesis using Cons.prems(2) by (rule Cons.IH)
  qed
qed

lemma mkdir_parents_dirs:
  "mkdir_parents fs pre ds = Inr fs' \<Longrightarrow> prefix q ds \<Longrightarrow> q \<noteq> [] \<Longrightarrow> node fs' (pre @ q) = Some Dir"
proof (induction ds arbitrary: fs pre q)
  case Nil
  then show ?case by simp
next
  case (Cons n ns)
  from Cons.prems(2,3) obtain q' where q: "q = n # q'" and pq: "prefix q' ns"
    by (cases q) auto
  obtain g where g: "mkdir_parents g (pre @ [n]) ns = Inr fs'" and gd: "node g (pre @ [n]) = Some Dir"
  proof (cases "node fs (pre @ [n])")
    case None
    with Cons.prems(1) that show ?thesis by auto
  next
    case (Some y)
    with Cons.prems(1) that show ?thesis by (cases y) auto
  qed
  show ?case
  proof (cases "q' = []")
    case True
    with q gd g show ?thesis by (simp add: mkdir_parents_keeps)
  next
    case False
    from Cons.IH [OF g pq False] q show ?thesis by simp
  qed
qed


lemma write_file_result:
  assumes "write_file fs p c = Inr fs'"
  shows "node fs' = (node fs)(p \<mapsto> File c)" and "node fs p \<noteq> Some Dir"
    and "p \<noteq> []" and "node_at fs (butlast p) = Some Dir"
  using assms by (auto simp: write_file_def split: if_splits option.splits node.splits)


lemma write_file_total:
  assumes "p \<noteq> []" and "is_dir fs (butlast p)" and "\<not> is_dir fs p"
  shows "\<exists>f. write_file fs p c = Inr f"
  using assms by (auto simp: write_file_def is_dir_def node_at_def split: option.splits node.splits)

lemma put_result:
  assumes "put fs (d, p, c) = Inr fs'"
  shows "node fs' p = Some (File c)"
    and "\<And>q x. q \<noteq> p \<Longrightarrow> node fs q = Some x \<Longrightarrow> node fs' q = Some x"
    and "\<And>q. node fs q = Some Dir \<Longrightarrow> node fs' q = Some Dir"
    and "\<And>q c0. node fs q = Some (File c0) \<Longrightarrow> \<exists>c1. node fs' q = Some (File c1)"
    and "ready fs' d p"
proof -
  from assms obtain f1 where m: "mkdir_parents fs [] d = Inr f1" and w: "write_file f1 p c = Inr fs'"
    by (auto simp: put_def bindE_eq_Inr)
  note r = write_file_result [OF w]
  show 1: "node fs' p = Some (File c)" by (simp add: r(1))
  show 2: "node fs' q = Some x" if "q \<noteq> p" "node fs q = Some x" for q x
    using that mkdir_parents_keeps [OF m that(2)] by (simp add: r(1))
  show 3: "node fs' q = Some Dir" if "node fs q = Some Dir" for q
    using mkdir_parents_keeps [OF m that] r(2) by (auto simp: r(1))
  show "\<exists>c1. node fs' q = Some (File c1)" if "node fs q = Some (File c0)" for q c0
    using mkdir_parents_keeps [OF m that] by (simp add: r(1))
  have d: "node fs' q = Some Dir" if "prefix q d" "q \<noteq> []" for q
  proof -
    have "node f1 q = Some Dir" using mkdir_parents_dirs [OF m that] by simp
    then show ?thesis using r(2) by (auto simp: r(1))
  qed
  have b: "node_at fs' (butlast p) = Some Dir"
    using r(2,3,4) by (auto simp: node_at_def r(1))
  show "ready fs' d p"
    using d b r(3) 1 by (simp add: ready_def)
qed


lemma ready_mono:
  assumes "ready fs d p"
    and "\<And>q. node fs q = Some Dir \<Longrightarrow> node fs' q = Some Dir"
    and "\<And>q c0. node fs q = Some (File c0) \<Longrightarrow> \<exists>c1. node fs' q = Some (File c1)"
  shows "ready fs' d p"
  using assms unfolding ready_def node_at_def by (auto split: if_splits)

lemma puts_append: "puts (xs @ ys) fs = bindE (puts xs fs) (puts ys)"
  by (induction xs arbitrary: fs) (auto simp: bindE_def split: sum.splits)

lemma puts_single: "puts [x] fs = put fs x"
  by (cases "put fs x") simp_all

lemma last_written_Nil: "last_written [] = Map.empty"
  by (simp add: last_written_def)

lemma last_written_snoc: "last_written (xs @ [(d, p, c)]) = (last_written xs)(p \<mapsto> File c)"
  by (auto simp: last_written_def)


lemma puts_state:
  "puts xs fs = Inr fs' \<Longrightarrow>
     (\<forall>(d, p, c) \<in> set xs. ready fs' d p) \<and> (\<forall>q x. last_written xs q = Some x \<longrightarrow> node fs' q = Some x)"
proof (induction xs arbitrary: fs' rule: rev_induct)
  case Nil
  then show ?case by (simp add: last_written_Nil)
next
  case (snoc x xs)
  obtain d p c where x: "x = (d, p, c)" by (cases x)
  from snoc.prems obtain g where g: "puts xs fs = Inr g" and s: "put g (d, p, c) = Inr fs'"
    unfolding puts_append bindE_eq_Inr puts_single x by blast
  note r = put_result [OF s]
  note ih = snoc.IH [OF g]
  have "ready fs' d' p'" if "(d', p', c') \<in> set xs" for d' p' c'
  proof (rule ready_mono)
    show "ready g d' p'" using ih that by auto
  qed (use r in auto)
  moreover have "node fs' q = Some y" if "last_written (xs @ [(d, p, c)]) q = Some y" for q y
  proof (cases "q = p")
    case True
    with that r(1) show ?thesis by (simp add: last_written_snoc)
  next
    case False
    with that have "last_written xs q = Some y" by (simp add: last_written_snoc)
    with ih have "node g q = Some y" by blast
    with False r(2) show ?thesis by blast
  qed
  ultimately show ?case using r(5) by (auto simp: x)
qed



section \<open>Properties of \<^verbatim>\<open>make_sed_files\<close>\<close>

lemma write_sed_put:
  "write_sed env sed (f, lg) =
     (case put f (sed_target env (process env sed)) of
        Inl e \<Rightarrow> Inl e
      | Inr f2 \<Rightarrow> Inr (process env sed, f2,
          lg @ [(DEBUG, Text (''Processing SED: '' @ sed_path sed)),
                (INFO, Text (''Writing '' @ str_of (sed_file env (process env sed))))]))"
  by (simp add: write_sed_def Let_def make_filename_sed bindE_def put_def sed_target_def
      sed_file_def split: sum.splits)

lemma sed_loop_puts:
  "sed_loop env ss (f, lg) = Inr (ss', f', lg') \<Longrightarrow>
     ss' = map (process env) ss \<and> puts (map (sed_target env) (map (process env) ss)) f = Inr f'"
proof (induction ss arbitrary: f lg ss')
  case Nil
  then show ?case by simp
next
  case (Cons s ss)
  from Cons.prems obtain f1 lg1 rest where
    w: "write_sed env s (f, lg) = Inr (process env s, f1, lg1)"
    and l: "sed_loop env ss (f1, lg1) = Inr (rest, f', lg')" and r: "ss' = process env s # rest"
    by (auto simp: write_sed_put split: sum.splits)
  from w have "put f (sed_target env (process env s)) = Inr f1"
    by (auto simp: write_sed_put split: sum.splits)
  with Cons.IH [OF l] r show ?case by simp
qed


lemma input_data_filesystem: "input_data env w = Inr (d, v) \<Longrightarrow> filesystem v = filesystem w"
  by (auto simp: input_data_def bindE_eq_Inr split: option.splits)

lemma make_sed_files_puts:
  assumes "make_sed_files env w = Inr w'" and "input_data env w = Inr (d, v)"
  shows "puts (map (sed_target env) (map (process env) (seds d))) (filesystem w) = Inr (filesystem w')"
    and "input_cache w' = Some (d\<lparr>seds := map (process env) (seds d)\<rparr>)"
proof -
  from assms obtain ss f lg where l: "sed_loop env (seds d) (filesystem v, logged v) = Inr (ss, f, lg)"
    and w': "w' = v\<lparr>filesystem := f, logged := lg, input_cache := Some (d\<lparr>seds := ss\<rparr>)\<rparr>"
    by (auto simp: make_sed_files_def bindE_eq_Inr)
  from sed_loop_puts [OF l] w' input_data_filesystem [OF assms(2)]
  show "puts (map (sed_target env) (map (process env) (seds d))) (filesystem w) = Inr (filesystem w')"
    and "input_cache w' = Some (d\<lparr>seds := map (process env) (seds d)\<rparr>)"
    by simp_all
qed


lemma make_sed_files_written:
  assumes "make_sed_files env w = Inr w1" and "input_data env w = Inr (d, v)"
    and "s \<in> set (seds d)"
  shows "is_file (filesystem w1) (resolve env (sed_file env (process env s)))"
proof -
  let ?xs = "map (sed_target env) (map (process env) (seds d))"
  have "sed_target env (process env s) \<in> set ?xs"
    using assms(3) by simp
  then have "ready (filesystem w1) (resolve env (parent (sed_file env (process env s))))
      (resolve env (sed_file env (process env s)))"
    using puts_state [OF make_sed_files_puts(1) [OF assms(1,2)]] by (auto simp: sed_target_def)
  then show ?thesis
    by (auto simp: ready_def is_file_def node_at_def)
qed

lemma make_sed_files_input:
  "make_sed_files env w = Inr w1 \<Longrightarrow> \<exists>d v. input_data env w = Inr (d, v)"
  by (auto simp: make_sed_files_def bindE_eq_Inr)

lemma example_input: "input_data example_env example_world =
  Inr (\<lparr>seds = [example_sed], datasets_data = [1], sources_data = [2]\<rparr>,
       example_world\<lparr>logged := [(INFO, Text ''Reading input data ...'')],
         input_cache := Some \<lparr>seds = [example_sed], datasets_data = [1], sources_data = [2]\<rparr>\<rparr>)"
  by (simp add: input_data_def example_env_def example_world_def bindE_def)




section \<open>Properties of the index files\<close>

lemma resolve_index_datasets_json:
  "resolve env (index_datasets_json env) = resolve env (path env) @ [''gammacat-datasets.json'']"
  by (simp add: index_datasets_json_def joinpath_def Path_of_def splitroot_def parse_parts_def
      resolve_def)

lemma resolve_index_sources_json:
  "resolve env (index_sources_json env) = resolve env (path env) @ [''gammacat-sources.json'']"
  by (simp add: index_sources_json_def joinpath_def Path_of_def splitroot_def parse_parts_def
      resolve_def)

lemma make_index_files_datasets_Inr:
  "make_index_files_datasets env w = Inr w' \<longleftrightarrow>
     (\<exists>d v files f. input_data env w = Inr (d, v)
        \<and> list_of_files env (filesystem w) (OutputData env None None) ''*'' = Inr files
        \<and> write_file (filesystem w) (resolve env (index_datasets_json env))
            (Json [(''info'', Info (info_dict env)), (''data'', Records (datasets_data d)),
                   (''files'', Files files)]) = Inr f
        \<and> w' = v\<lparr>filesystem := f\<rparr>)"
  (is "?l \<longleftrightarrow> ?r")
proof
  assume ?l
  then obtain d v where i: "input_data env w = Inr (d, v)"
    by (auto simp: make_index_files_datasets_def Let_def bindE_eq_Inr)
  note fv = input_data_filesystem [OF i]
  from \<open>?l\<close> show ?r
    by (auto simp: make_index_files_datasets_def Let_def bindE_eq_Inr i fv write_json_def)
next
  assume ?r
  then obtain d v files f where i: "input_data env w = Inr (d, v)"
    and r: "list_of_files env (filesystem w) (OutputData env None None) ''*'' = Inr files"
      "write_file (filesystem w) (resolve env (index_datasets_json env))
            (Json [(''info'', Info (info_dict env)), (''data'', Records (datasets_data d)),
                   (''files'', Files files)]) = Inr f"
      "w' = v\<lparr>filesystem := f\<rparr>"
    by blast
  note fv = input_data_filesystem [OF i]
  from r show ?l
    by (simp add: make_index_files_datasets_def Let_def bindE_Inr i fv write_json_def)
qed

lemma make_index_files_sources_Inr:
  "make_index_files_sources env w = Inr w' \<longleftrightarrow>
     (\<exists>d v f. input_data env w = Inr (d, v)
        \<and> write_file (filesystem w) (resolve env (index_sources_json env))
            (Json [(''info'', Info (info_dict env)), (''data'', Records (sources_data d))]) = Inr f
        \<and> w' = v\<lparr>filesystem := f\<rparr>)"
  (is "?l \<longleftrightarrow> ?r")
proof
  assume ?l
  then obtain d v where i: "input_data env w = Inr (d, v)"
    by (auto simp: make_index_files_sources_def Let_def bindE_eq_Inr)
  note fv = input_data_filesystem [OF i]
  from \<open>?l\<close> show ?r
    by (auto simp: make_index_files_sources_def Let_def bindE_eq_Inr i fv write_json_def)
next
  assume ?r
  then obtain d v f where i: "input_data env w = Inr (d, v)"
    and r: "write_file (filesystem w) (resolve env (index_sources_json env))
            (Json [(''info'', Info (info_dict env)), (''data'', Records (sources_data d))]) = Inr f"
      "w' = v\<lparr>filesystem := f\<rparr>"
    by blast
  note fv = input_data_filesystem [OF i]
  from r show ?l
    by (simp add: make_index_files_sources_def Let_def bindE_Inr i fv write_json_def)
qed

text \<open>
  C7: the document that \<^verbatim>\<open>make_index_files_datasets\<close> writes to the dataset index path
  has the keys \<open>info\<close>, \<open>data\<close>, \<open>files\<close>, in this order: the catalog metadata, the
  record list of the datasets and the listing of the output tree. The document that
  \<^verbatim>\<open>make_index_files_sources\<close> writes has the keys \<open>info\<close>, \<open>data\<close> only: the catalog
  metadata and the record list of the sources. Both calls return when the input can be
  read, the output path is a directory and the index path is not one.
\<close>

theorem index_documents:
  "(make_index_files_datasets env w = Inr w' \<longrightarrow>
      (\<exists>d v files. input_data env w = Inr (d, v)
         \<and> list_of_files env (filesystem w) (OutputData env None None) ''*'' = Inr files
         \<and> node (filesystem w') (resolve env (index_datasets_json env)) =
             Some (File (Json [(''info'', Info (info_dict env)),
                               (''data'', Records (datasets_data d)),
                               (''files'', Files files)]))))
   \<and> (make_index_files_sources env w = Inr w' \<longrightarrow>
      (\<exists>d v. input_data env w = Inr (d, v)
         \<and> node (filesystem w') (resolve env (index_sources_json env)) =
             Some (File (Json [(''info'', Info (info_dict env)),
                               (''data'', Records (sources_data d))]))))
   \<and> (input_data env w = Inr (d, v) \<and> is_dir (filesystem w) (resolve env (path env))
        \<and> \<not> is_dir (filesystem w) (resolve env (index_datasets_json env)) \<longrightarrow>
        (\<exists>w'. make_index_files_datasets env w = Inr w'))
   \<and> (input_data env w = Inr (d, v) \<and> is_dir (filesystem w) (resolve env (path env))
        \<and> \<not> is_dir (filesystem w) (resolve env (index_sources_json env)) \<longrightarrow>
        (\<exists>w'. make_index_files_sources env w = Inr w'))"
proof (intro conjI impI)
  assume "make_index_files_datasets env w = Inr w'"
  then obtain d v files f where i: "input_data env w = Inr (d, v)"
    and l: "list_of_files env (filesystem w) (OutputData env None None) ''*'' = Inr files"
    and wf: "write_file (filesystem w) (resolve env (index_datasets_json env))
            (Json [(''info'', Info (info_dict env)), (''data'', Records (datasets_data d)),
                   (''files'', Files files)]) = Inr f"
    and w': "w' = v\<lparr>filesystem := f\<rparr>"
    unfolding make_index_files_datasets_Inr by blast
  from write_file_result(1) [OF wf] w' i l
  show "\<exists>d v files. input_data env w = Inr (d, v)
         \<and> list_of_files env (filesystem w) (OutputData env None None) ''*'' = Inr files
         \<and> node (filesystem w') (resolve env (index_datasets_json env)) =
             Some (File (Json [(''info'', Info (info_dict env)),
                               (''data'', Records (datasets_data d)),
                               (''files'', Files files)]))"
    by auto
next
  assume "make_index_files_sources env w = Inr w'"
  then obtain d v f where i: "input_data env w = Inr (d, v)"
    and wf: "write_file (filesystem w) (resolve env (index_sources_json env))
            (Json [(''info'', Info (info_dict env)), (''data'', Records (sources_data d))]) = Inr f"
    and w': "w' = v\<lparr>filesystem := f\<rparr>"
    unfolding make_index_files_sources_Inr by blast
  from write_file_result(1) [OF wf] w' i
  show "\<exists>d v. input_data env w = Inr (d, v)
         \<and> node (filesystem w') (resolve env (index_sources_json env)) =
             Some (File (Json [(''info'', Info (info_dict env)),
                               (''data'', Records (sources_data d))]))"
    by auto
next
  assume a: "input_data env w = Inr (d, v) \<and> is_dir (filesystem w) (resolve env (path env))
        \<and> \<not> is_dir (filesystem w) (resolve env (index_datasets_json env))"
  obtain files where l: "list_of_files env (filesystem w) (OutputData env None None) ''*'' = Inr files"
    using list_of_files_star by blast
  from a obtain f where "write_file (filesystem w) (resolve env (index_datasets_json env))
            (Json [(''info'', Info (info_dict env)), (''data'', Records (datasets_data d)),
                   (''files'', Files files)]) = Inr f"
    using write_file_total [of "resolve env (index_datasets_json env)" "filesystem w"]
    by (auto simp: resolve_index_datasets_json)
  with a l show "\<exists>w'. make_index_files_datasets env w = Inr w'"
    unfolding make_index_files_datasets_Inr by blast
next
  assume a: "input_data env w = Inr (d, v) \<and> is_dir (filesystem w) (resolve env (path env))
        \<and> \<not> is_dir (filesystem w) (resolve env (index_sources_json env))"
  then obtain f where "write_file (filesystem w) (resolve env (index_sources_json env))
            (Json [(''info'', Info (info_dict env)), (''data'', Records (sources_data d))]) = Inr f"
    using write_file_total [of "resolve env (index_sources_json env)" "filesystem w"]
    by (auto simp: resolve_index_sources_json)
  with a show "\<exists>w'. make_index_files_sources env w = Inr w'"
    unfolding make_index_files_sources_Inr by blast
qed

theorem index_documents_witness:
  "(\<exists>w'. make_index_files_datasets example_env example_world = Inr w'
       \<and> node (filesystem w') [''repo'', ''docs'', ''data'', ''gammacat-datasets.json''] =
           Some (File (Json [(''info'', Info ()), (''data'', Records [1]),
                             (''files'', Files [''README.md''])])))
   \<and> (\<exists>w'. make_index_files_sources example_env example_world = Inr w'
       \<and> node (filesystem w') [''repo'', ''docs'', ''data'', ''gammacat-sources.json''] =
           Some (File (Json [(''info'', Info ()), (''data'', Records [2])])))"
proof -
  have v: "list_of_files example_env (filesystem example_world) (OutputData example_env None None) ''*'' =
      Inr [''README.md'']"
    by code_simp
  have r: "resolve example_env (path example_env) = [''repo'', ''docs'', ''data'']"
    by code_simp
  have rd: "resolve example_env (index_datasets_json example_env) =
      [''repo'', ''docs'', ''data'', ''gammacat-datasets.json'']"
    and rs: "resolve example_env (index_sources_json example_env) =
      [''repo'', ''docs'', ''data'', ''gammacat-sources.json'']"
    by (simp_all add: resolve_index_datasets_json resolve_index_sources_json r)
  have d: "is_dir (filesystem example_world) (resolve example_env (path example_env))"
    "\<not> is_dir (filesystem example_world) (resolve example_env (index_datasets_json example_env))"
    "\<not> is_dir (filesystem example_world) (resolve example_env (index_sources_json example_env))"
    by (simp_all add: r rd rs example_world_def example_fs_def is_dir_def node_at_def)
  obtain w1 where w1: "make_index_files_datasets example_env example_world = Inr w1"
    using index_documents [of example_env example_world] example_input d by blast
  obtain w2 where w2: "make_index_files_sources example_env example_world = Inr w2"
    using index_documents [of example_env example_world] example_input d by blast
  from index_documents [of example_env example_world w1] w1 v example_input
  have "node (filesystem w1) [''repo'', ''docs'', ''data'', ''gammacat-datasets.json''] =
           Some (File (Json [(''info'', Info ()), (''data'', Records [1]),
                             (''files'', Files [''README.md''])]))"
    by (auto simp: rd)
  moreover from index_documents [of example_env example_world w2] w2 example_input
  have "node (filesystem w2) [''repo'', ''docs'', ''data'', ''gammacat-sources.json''] =
           Some (File (Json [(''info'', Info ()), (''data'', Records [2])]))"
    by (auto simp: rs)
  ultimately show ?thesis using w1 w2 by blast
qed

lemma example_make_all:
  "map_sum id (\<lambda>w. node (filesystem w) [''repo'', ''docs'', ''data'', ''gammacat-datasets.json''])
     (make_all example_env example_world) =
   Inr (Some (File (Json [(''info'', Info ()), (''data'', Records [1]),
     (''files'', Files [''README.md'', ''sources/tev-000001/tev-000001-2011_sed.ecsv''])])))"
  by code_simp

text \<open>
  C1: \<^verbatim>\<open>make_all\<close> is \<^verbatim>\<open>make_sed_files\<close>, then \<^verbatim>\<open>make_index_files_datasets\<close>, then
  \<^verbatim>\<open>make_index_files_sources\<close>; when it returns, the \<open>files\<close> entry of the dataset
  index on disk is the listing of the output tree in the state that \<^verbatim>\<open>make_sed_files\<close>
  has left, in which the file of every SED is a regular file.
\<close>

theorem make_all_order:
  "make_all env w =
     bindE (make_sed_files env w) (\<lambda>w1.
       bindE (make_index_files_datasets env w1) (\<lambda>w2. make_index_files_sources env w2))
   \<and> (make_all env w = Inr w' \<longrightarrow>
        (\<exists>w1 w2 d v files doc. make_sed_files env w = Inr w1
           \<and> input_data env w = Inr (d, v)
           \<and> (\<forall>s \<in> set (seds d).
                 is_file (filesystem w1) (resolve env (sed_file env (process env s))))
           \<and> make_index_files_datasets env w1 = Inr w2
           \<and> make_index_files_sources env w2 = Inr w'
           \<and> list_of_files env (filesystem w1) (OutputData env None None) ''*'' = Inr files
           \<and> node (filesystem w') (resolve env (index_datasets_json env)) = Some (File (Json doc))
           \<and> map fst doc = [''info'', ''data'', ''files'']
           \<and> map_of doc ''files'' = Some (Files files)))"
proof (intro conjI impI)
  show eq: "make_all env w =
     bindE (make_sed_files env w) (\<lambda>w1.
       bindE (make_index_files_datasets env w1) (\<lambda>w2. make_index_files_sources env w2))"
    by (cases "make_sed_files env w") (simp_all add: make_all_def make_index_files_def bindE_def)
  assume "make_all env w = Inr w'"
  then obtain w1 w2 where s: "make_sed_files env w = Inr w1"
    and a: "make_index_files_datasets env w1 = Inr w2"
    and b: "make_index_files_sources env w2 = Inr w'"
    unfolding eq bindE_eq_Inr by blast
  from a obtain d v files f where i: "input_data env w1 = Inr (d, v)"
    and l: "list_of_files env (filesystem w1) (OutputData env None None) ''*'' = Inr files"
    and wf: "write_file (filesystem w1) (resolve env (index_datasets_json env))
            (Json [(''info'', Info (info_dict env)), (''data'', Records (datasets_data d)),
                   (''files'', Files files)]) = Inr f"
    and w2: "w2 = v\<lparr>filesystem := f\<rparr>"
    unfolding make_index_files_datasets_Inr by blast
  from b obtain d' v' f' where i': "input_data env w2 = Inr (d', v')" and
    wf': "write_file (filesystem w2) (resolve env (index_sources_json env))
            (Json [(''info'', Info (info_dict env)), (''data'', Records (sources_data d'))]) = Inr f'"
    and w': "w' = v'\<lparr>filesystem := f'\<rparr>"
    unfolding make_index_files_sources_Inr by blast
  have ne: "resolve env (index_datasets_json env) \<noteq> resolve env (index_sources_json env)"
    by (simp add: resolve_index_datasets_json resolve_index_sources_json)
  have "node (filesystem w') (resolve env (index_datasets_json env)) =
      Some (File (Json [(''info'', Info (info_dict env)), (''data'', Records (datasets_data d)),
                   (''files'', Files files)]))"
    using write_file_result(1) [OF wf] write_file_result(1) [OF wf'] ne by (simp add: w' w2)
  moreover from make_sed_files_input [OF s] obtain d0 v0 where i0: "input_data env w = Inr (d0, v0)"
    by blast
  moreover have "\<forall>s \<in> set (seds d0).
      is_file (filesystem w1) (resolve env (sed_file env (process env s)))"
    using make_sed_files_written [OF s i0] by blast
  ultimately show "\<exists>w1 w2 d v files doc. make_sed_files env w = Inr w1
           \<and> input_data env w = Inr (d, v)
           \<and> (\<forall>s \<in> set (seds d).
                 is_file (filesystem w1) (resolve env (sed_file env (process env s))))
           \<and> make_index_files_datasets env w1 = Inr w2
           \<and> make_index_files_sources env w2 = Inr w'
           \<and> list_of_files env (filesystem w1) (OutputData env None None) ''*'' = Inr files
           \<and> node (filesystem w') (resolve env (index_datasets_json env)) = Some (File (Json doc))
           \<and> map fst doc = [''info'', ''data'', ''files'']
           \<and> map_of doc ''files'' = Some (Files files)"
    using s a b l
    by (intro exI [of _ w1] exI [of _ w2] exI [of _ d0] exI [of _ v0] exI [of _ files]
        exI [of _ "[(''info'', Info (info_dict env)), (''data'', Records (datasets_data d)),
                   (''files'', Files files)]"]) simp
qed

theorem make_all_order_witness:
  "\<exists>w' w1 files doc. make_all example_env example_world = Inr w'
     \<and> make_sed_files example_env example_world = Inr w1
     \<and> list_of_files example_env (filesystem w1) (OutputData example_env None None) ''*'' = Inr files
     \<and> node (filesystem w') [''repo'', ''docs'', ''data'', ''gammacat-datasets.json''] =
          Some (File (Json doc))
     \<and> map_of doc ''files'' = Some (Files files)
     \<and> files = [''README.md'', ''sources/tev-000001/tev-000001-2011_sed.ecsv'']"
proof -
  have rd: "resolve example_env (index_datasets_json example_env) =
      [''repo'', ''docs'', ''data'', ''gammacat-datasets.json'']"
    by code_simp
  from example_make_all obtain w' where w': "make_all example_env example_world = Inr w'"
    and n: "node (filesystem w') [''repo'', ''docs'', ''data'', ''gammacat-datasets.json''] =
      Some (File (Json [(''info'', Info ()), (''data'', Records [1]),
       (''files'', Files [''README.md'', ''sources/tev-000001/tev-000001-2011_sed.ecsv''])]))"
    by (cases "make_all example_env example_world") auto
  from make_all_order [of example_env example_world w'] w'
  obtain w1 files doc where "make_sed_files example_env example_world = Inr w1"
    "list_of_files example_env (filesystem w1) (OutputData example_env None None) ''*'' = Inr files"
    "node (filesystem w') (resolve example_env (index_datasets_json example_env)) = Some (File (Json doc))"
    "map_of doc ''files'' = Some (Files files)"
    by blast
  with w' n show ?thesis
    by (auto simp: rd)
qed

section \<open>Properties of \<^verbatim>\<open>validate_list_of_files\<close>\<close>

text \<open>
  C2: when the object holds a dataset index with a \<open>files\<close> list and the SED collection
  can be read, \<^verbatim>\<open>validate_list_of_files\<close> returns, whatever the lists hold, and its log
  is the comparison of the scan with the \<open>files\<close> list of the index, followed by the
  comparison of the same scan with the six fixed names and the relative SED file name
  of every SED read.
\<close>

theorem validate_list_of_files_two_comparisons:
  assumes "index_dataset self = Some d" and "map_of d ''files'' = Some (Files expected)"
    and "SEDList_read env = Inr sed_list"
  shows "\<exists>actual. list_of_files env fs self ''*'' = Inr actual
     \<and> validate_list_of_files env fs self =
         Inr (log_list_difference actual expected @
              log_list_difference actual
                ([''README.md'', ''gammacat-datasets.json'', ''gammacat-sources.json'',
                  ''gammacat.fits.gz'', ''gammacat.ecsv'', ''gammacat.yaml''] @
                 map (\<lambda>sed. str_of (joinpath (source_path env (meta (sed_table sed)) True)
                        (source_dataset_filename env (meta (sed_table sed)) @ ''_sed.ecsv'')))
                   sed_list))"
proof -
  obtain actual where a: "list_of_files env fs self ''*'' = Inr actual"
    using list_of_files_star by blast
  have c: "collect (\<lambda>sed. map_sum id str_of (make_filename env (meta (sed_table sed)) ''sed'' True))
      sed_list = Inr (map (\<lambda>sed. str_of (joinpath (source_path env (meta (sed_table sed)) True)
                        (source_dataset_filename env (meta (sed_table sed)) @ ''_sed.ecsv'')))
                   sed_list)"
    by (rule collect_all_Inr) (simp add: make_filename_sed)
  show ?thesis
    using a by (simp add: validate_list_of_files_def assms bindE_Inr c Let_def expected_files_extra_def)
qed

theorem validate_list_of_files_two_comparisons_witness:
  "index_dataset (OutputData example_env
      (Some [(''info'', Info ()), (''data'', Records [1]),
             (''files'', Files [''README.md'', ''gone.txt''])]) None) =
     Some [(''info'', Info ()), (''data'', Records [1]), (''files'', Files [''README.md'', ''gone.txt''])]
   \<and> map_of [(''info'', Info ()), (''data'', Records [1::nat]),
              (''files'', Files [''README.md'', ''gone.txt''])] ''files'' =
        Some (Files [''README.md'', ''gone.txt''])
   \<and> SEDList_read example_env = Inr [example_sed]
   \<and> validate_list_of_files example_env example_fs (OutputData example_env
      (Some [(''info'', Info ()), (''data'', Records [1]),
             (''files'', Files [''README.md'', ''gone.txt''])]) None) =
     Inr [(ERROR, Listing ''Missing: '' [''gone.txt'']),
          (ERROR, Listing ''Missing: ''
             [''gammacat-datasets.json'', ''gammacat-sources.json'', ''gammacat.ecsv'',
              ''gammacat.fits.gz'', ''gammacat.yaml'',
              ''sources/tev-000001/tev-000001-2011_sed.ecsv''])]"
proof -
  let ?d = "[(''info'', Info ()), (''data'', Records [1::nat]),
             (''files'', Files [''README.md'', ''gone.txt''])]"
  let ?self = "OutputData example_env (Some ?d) None"
  have h1: "index_dataset ?self = Some ?d" by (simp add: OutputData_def)
  have h2: "map_of ?d ''files'' = Some (Files [''README.md'', ''gone.txt''])" by simp
  have h3: "SEDList_read example_env = Inr [example_sed]" by (simp add: example_env_def)
  have v: "list_of_files example_env example_fs ?self ''*'' = Inr [''README.md'']"
    by code_simp
  have s: "str_of (joinpath (source_path example_env (meta (sed_table example_sed)) True)
                        (source_dataset_filename example_env (meta (sed_table example_sed)) @ ''_sed.ecsv'')) =
       ''sources/tev-000001/tev-000001-2011_sed.ecsv''"
    by code_simp
  have l1: "log_list_difference [''README.md''] [''README.md'', ''gone.txt''] =
      [(ERROR, Listing ''Missing: '' [''gone.txt''])]"
    by code_simp
  have l2: "log_list_difference [''README.md'']
      [''README.md'', ''gammacat-datasets.json'', ''gammacat-sources.json'',
                  ''gammacat.fits.gz'', ''gammacat.ecsv'', ''gammacat.yaml'',
       ''sources/tev-000001/tev-000001-2011_sed.ecsv''] =
      [(ERROR, Listing ''Missing: ''
             [''gammacat-datasets.json'', ''gammacat-sources.json'', ''gammacat.ecsv'',
              ''gammacat.fits.gz'', ''gammacat.yaml'',
              ''sources/tev-000001/tev-000001-2011_sed.ecsv''])]"
    by code_simp
  from validate_list_of_files_two_comparisons [OF h1 h2 h3, of example_fs]
  have "validate_list_of_files example_env example_fs ?self =
     Inr [(ERROR, Listing ''Missing: '' [''gone.txt'']),
          (ERROR, Listing ''Missing: ''
             [''gammacat-datasets.json'', ''gammacat-sources.json'', ''gammacat.ecsv'',
              ''gammacat.fits.gz'', ''gammacat.yaml'',
              ''sources/tev-000001/tev-000001-2011_sed.ecsv''])]"
    unfolding v by (simp add: s l1 l2)
  with h1 h2 h3 show ?thesis by blast
qed

end
